theory Spec2Isabelle
  imports Complex_Main
begin

section \<open>Closed-form European option prices (stochastic.cpp, main.cpp)\<close>

text \<open>
  The C++ type \<^verbatim>\<open>double\<close> is read as \<^typ>\<open>real\<close>: the development is about the
  closed forms in exact arithmetic. \<^verbatim>\<open>M_PI\<close> is \<^term>\<open>pi\<close>, \<^verbatim>\<open>log\<close> is \<^term>\<open>ln\<close>.
  A \<^verbatim>\<open>throw\<close> is the left summand of the result, a \<^verbatim>\<open>return\<close> the right one.

  Where the C++ arithmetic leaves the reals (a division by zero, the logarithm or the
  square root of a negative number give an infinity or a NaN there, and a fixed real
  number in HOL), the model says nothing about the program. The offsets \<open>xs\<close>, \<open>d1\<close>
  and \<open>d2\<close> are computed before the at-the-money test, as in the source, but no
  floating-point operation traps, and at the money they are not used. The theorems
  about the other branches assume positive Spot, Strike, volatility and maturity.
\<close>

subsection \<open>The standard normal distribution (statistics.h)\<close>

text \<open>
  The pricers call \<^verbatim>\<open>Z.pdf\<close> and \<^verbatim>\<open>Z.cdf\<close> of a \<^verbatim>\<open>StandardNormalDistribution\<close>
  declared in \<^verbatim>\<open>statistics.h\<close>. That header is not among the sources, so the two
  methods are taken from section 4.1 of the specification.
\<close>

text \<open>
  Modelled from the spec: the error function used by \<^verbatim>\<open>cdf\<close> (missing with
  \<^verbatim>\<open>statistics.h\<close>; the specification says "computed via the error function"). It is
  given by its Maclaurin series
  \<open>erf x = 2/\<surd>\<pi> \<sqdot> \<Sum>n. (\<minus>1)\<^sup>n \<sqdot> x\<^sup>2\<^sup>n\<^sup>+\<^sup>1 / (n! \<sqdot> (2n+1))\<close>, which converges for every \<open>x\<close>.
\<close>

definition erf_term :: "real \<Rightarrow> nat \<Rightarrow> real" where
  "erf_term x n = (- 1) ^ n * x ^ (2 * n + 1) / (fact n * real (2 * n + 1))"

definition erf :: "real \<Rightarrow> real" where
  "erf x = 2 / sqrt pi * (\<Sum>n. erf_term x n)"

text \<open>
  Modelled from the spec: \<^verbatim>\<open>StandardNormalDistribution::pdf\<close> (missing with
  \<^verbatim>\<open>statistics.h\<close>): "\<open>pdf(x)\<close> returns \<open>(1/\<surd>(2\<pi>)) \<sqdot> exp(\<minus>x\<^sup>2/2)\<close>".
\<close>

definition pdf :: "real \<Rightarrow> real" where
  "pdf x = (1 / sqrt (2 * pi)) * exp (- (x * x) / 2)"

text \<open>
  Modelled from the spec: \<^verbatim>\<open>StandardNormalDistribution::cdf\<close> (missing with
  \<^verbatim>\<open>statistics.h\<close>): "\<open>cdf(x) = 0.5 \<sqdot> (1 + erf(x/\<surd>2))\<close>".
\<close>

definition cdf :: "real \<Rightarrow> real" where
  "cdf x = 0.5 * (1 + erf (x / sqrt 2))"

subsection \<open>The pricers (stochastic.cpp)\<close>

datatype error = invalid_argument string

definition Bachelier :: "real \<Rightarrow> real \<Rightarrow> real \<Rightarrow> real \<Rightarrow> string \<Rightarrow> error + real" where
  "Bachelier Spot Strike Vol T type =
    (let xs = (Strike - Spot) / (Spot * Vol * sqrt T) in
     if Spot = Strike then Inr (Vol * Spot * sqrt (0.5 * T / pi))
     else if type = ''van call'' then
       Inr ((Spot - Strike) * cdf (- xs) + Spot * Vol * sqrt T * pdf (- xs))
     else if type = ''van put'' then
       Inr ((Strike - Spot) * cdf xs + Spot * Vol * sqrt T * pdf xs)
     else if type = ''con call'' then Inr (cdf (- xs))
     else if type = ''con put'' then Inr (cdf xs)
     else if type = ''aon call'' then
       Inr (Spot * cdf (- xs) + Spot * Vol * sqrt T * pdf (- xs))
     else if type = ''aon put'' then
       Inr (Spot * cdf xs - Spot * Vol * sqrt T * pdf xs)
     else Inl (invalid_argument ''Option type is invalid. Check documentation''))"

definition BlackScholes ::
  "real \<Rightarrow> real \<Rightarrow> real \<Rightarrow> real \<Rightarrow> real \<Rightarrow> string \<Rightarrow> error + real" where
  "BlackScholes Spot Strike r Vol T type =
    (let d1 = (ln (Spot / Strike) + (r + 0.5 * Vol * Vol) * T) / (Vol * sqrt T);
         d2 = (ln (Spot / Strike) + (r - 0.5 * Vol * Vol) * T) / (Vol * sqrt T) in
     if Spot = Strike then Inr (Vol * Spot * sqrt (0.5 * T / pi))
     else if type = ''van call'' then
       Inr (Spot * cdf d1 - Strike * exp (- r * T) * cdf d2)
     else if type = ''van put'' then
       Inr (- Spot * cdf (- d1) + Strike * exp (- r * T) * cdf (- d2))
     else if type = ''con call'' then Inr (exp (- r * T) * cdf d2)
     else if type = ''con put'' then Inr (exp (- r * T) * cdf (- d2))
     else if type = ''aon call'' then Inr (Spot * pdf d1)
     else if type = ''aon put'' then Inr (Spot * pdf (- d1))
     else Inl (invalid_argument ''Option type is invalid. Check documentation''))"

subsection \<open>The demonstration program (main.cpp)\<close>

text \<open>
  Standard output is the list of the items inserted into \<^verbatim>\<open>cout\<close>. An insertion chain
  \<^verbatim>\<open>cout << label << f(...) << endl\<close> evaluates its operands from left to right
  (C++17), so the label is written before the pricer is called. Nothing in \<^verbatim>\<open>main\<close>
  catches an exception: one that escapes a pricer ends the program through
  \<^verbatim>\<open>std::terminate\<close>, and \<^verbatim>\<open>return 0\<close> is not reached.
\<close>

datatype out_item = Str string | Dbl real | Endl

datatype exit_status = Returned int | Uncaught error

type_synonym stmt = "out_item list \<Rightarrow> (out_item list \<times> error) + out_item list"

definition put_text :: "string \<Rightarrow> out_item list \<Rightarrow> stmt" where
  "put_text s tail out = Inr (out @ Str s # tail)"

definition put_price :: "string \<Rightarrow> error + real \<Rightarrow> stmt" where
  "put_price label call out =
    (case call of
       Inl e \<Rightarrow> Inl (out @ [Str label], e)
     | Inr v \<Rightarrow> Inr (out @ [Str label, Dbl v, Endl]))"

fun run :: "stmt list \<Rightarrow> stmt" where
  "run [] out = Inr out"
| "run (s # ss) out = (case s out of Inl a \<Rightarrow> Inl a | Inr out' \<Rightarrow> run ss out')"

definition main_body :: "stmt list" where
  "main_body =
    (let So = 50; K = 20; r = 0.13; sigma = 0.2; T = 4 in
     [put_text ''Bachelier model'' [Endl],
      put_price ''Vanilla Call:'' (Bachelier So K sigma T ''van call''),
      put_price ''Vanilla Put:'' (Bachelier So K sigma T ''van put''),
      put_price ''CoN Call:'' (Bachelier So K sigma T ''con call''),
      put_price ''CoN Put:'' (Bachelier So K sigma T ''con put''),
      put_price ''AoN Call:'' (Bachelier So K sigma T ''aon call''),
      put_price ''AoN Put:'' (Bachelier So K sigma T ''aon put''),
      put_text ''Black-Scholes model'' [Endl, Endl],
      put_price ''Vanilla Call:'' (BlackScholes So K r sigma T ''van call''),
      put_price ''Vanilla Put:'' (BlackScholes So K r sigma T ''van put''),
      put_price ''CoN Call:'' (BlackScholes So K r sigma T ''con call''),
      put_price ''CoN Put:'' (BlackScholes So K r sigma T ''con put''),
      put_price ''AoN Call:'' (BlackScholes So K r sigma T ''aon call''),
      put_price ''AoN Put:'' (BlackScholes So K r sigma T ''aon putt'')])"

definition main :: "out_item list \<times> exit_status" where
  "main =
    (case run main_body [] of
       Inl (out, e) \<Rightarrow> (out, Uncaught e)
     | Inr out \<Rightarrow> (out, Returned 0))"

subsection \<open>The specification's tables (sections 4.2, 4.3 and 6)\<close>

text \<open>
  These definitions follow the words of the specification, not the code: the closed
  set of six variant tags, the token of each tag, the standardized offsets and the
  Bachelier formula table. The rows of the Black-Scholes table are written out in the
  theorems about them. The theorems below compare the pricers with these definitions.
\<close>

datatype variant = VanCall | VanPut | ConCall | ConPut | AonCall | AonPut

fun token :: "variant \<Rightarrow> string" where
  "token VanCall = ''van call''"
| "token VanPut = ''van put''"
| "token ConCall = ''con call''"
| "token ConPut = ''con put''"
| "token AonCall = ''aon call''"
| "token AonPut = ''aon put''"

definition recognized :: "string \<Rightarrow> bool" where
  "recognized s = (s \<in> set [''van call'', ''van put'', ''con call'', ''con put'',
     ''aon call'', ''aon put''])"

definition spec_xs :: "real \<Rightarrow> real \<Rightarrow> real \<Rightarrow> real \<Rightarrow> real" where
  "spec_xs Spot Strike Vol T = (Strike - Spot) / (Spot * Vol * sqrt T)"

definition spec_d1 :: "real \<Rightarrow> real \<Rightarrow> real \<Rightarrow> real \<Rightarrow> real \<Rightarrow> real" where
  "spec_d1 Spot Strike r Vol T =
     (ln (Spot / Strike) + (r + 0.5 * Vol\<^sup>2) * T) / (Vol * sqrt T)"

definition spec_d2 :: "real \<Rightarrow> real \<Rightarrow> real \<Rightarrow> real \<Rightarrow> real \<Rightarrow> real" where
  "spec_d2 Spot Strike r Vol T =
     (ln (Spot / Strike) + (r - 0.5 * Vol\<^sup>2) * T) / (Vol * sqrt T)"

fun spec_Bachelier :: "variant \<Rightarrow> real \<Rightarrow> real \<Rightarrow> real \<Rightarrow> real \<Rightarrow> real" where
  "spec_Bachelier VanCall Spot Strike Vol T =
     (Spot - Strike) * cdf (- spec_xs Spot Strike Vol T)
       + Spot * Vol * sqrt T * pdf (- spec_xs Spot Strike Vol T)"
| "spec_Bachelier VanPut Spot Strike Vol T =
     (Strike - Spot) * cdf (spec_xs Spot Strike Vol T)
       + Spot * Vol * sqrt T * pdf (spec_xs Spot Strike Vol T)"
| "spec_Bachelier ConCall Spot Strike Vol T = cdf (- spec_xs Spot Strike Vol T)"
| "spec_Bachelier ConPut Spot Strike Vol T = cdf (spec_xs Spot Strike Vol T)"
| "spec_Bachelier AonCall Spot Strike Vol T =
     Spot * cdf (- spec_xs Spot Strike Vol T)
       + Spot * Vol * sqrt T * pdf (- spec_xs Spot Strike Vol T)"
| "spec_Bachelier AonPut Spot Strike Vol T =
     Spot * cdf (spec_xs Spot Strike Vol T)
       - Spot * Vol * sqrt T * pdf (spec_xs Spot Strike Vol T)"

subsection \<open>Auxiliary functions for the analysis of the normal distribution\<close>







section \<open>Properties\<close>

subsection \<open>The error function and the normal distribution\<close>

lemma erf_term_abs_le: "\<bar>erf_term x n\<bar> \<le> \<bar>x\<bar> * (inverse (fact n) * (x * x) ^ n)"
proof -
  define y where "y = (x * x) ^ n"
  have y: "0 \<le> y" by (simp add: y_def)
  have pw: "x ^ (2 * n + 1) = x * y"
    by (simp add: y_def power_mult power2_eq_square)
  have "\<bar>erf_term x n\<bar> = \<bar>x\<bar> * (inverse (fact n) * y) / real (2 * n + 1)"
    unfolding erf_term_def pw using y
    by (simp add: abs_mult power_abs divide_simps)
  also have "\<dots> \<le> \<bar>x\<bar> * (inverse (fact n) * y) / 1"
    using y by (intro divide_left_mono mult_nonneg_nonneg) auto
  finally show ?thesis by (simp add: y_def)
qed

lemma erf_term_summable: "summable (erf_term x)"
proof (rule summable_comparison_test')
  show "summable (\<lambda>n. \<bar>x\<bar> * (inverse (fact n) * (x * x) ^ n))"
    by (intro summable_mult summable_exp)
  show "norm (erf_term x n) \<le> \<bar>x\<bar> * (inverse (fact n) * (x * x) ^ n)" if "n \<ge> 0" for n
    using erf_term_abs_le [of x n] by simp
qed

lemma erf_term_minus: "erf_term (- x) n = - erf_term x n"
  by (simp add: erf_term_def)

lemma erf_minus: "erf (- x) = - erf x"
  by (simp add: erf_def erf_term_minus suminf_minus [OF erf_term_summable])

lemma cdf_symmetric: "cdf x + cdf (- x) = 1"
  by (simp add: cdf_def erf_minus field_simps)

lemma pdf_even: "pdf (- x) = pdf x"
  by (simp add: pdf_def)


lemma cdf_minus: "cdf (- x) = 1 - cdf x"
  using cdf_symmetric [of x] by simp

lemma Bachelier_token:
  assumes "Spot \<noteq> Strike"
  shows "Bachelier Spot Strike Vol T (token v) = Inr (spec_Bachelier v Spot Strike Vol T)"
  using assms by (cases v) (simp_all add: Bachelier_def spec_xs_def Let_def)

subsection \<open>The derivative of the error function\<close>









subsection \<open>Antiderivatives of the powers of the cosine\<close>














subsection \<open>Comparing the error function with the cosine integrals\<close>







subsection \<open>Bounds on the error function and the distribution function\<close>










subsection \<open>Derivatives of the density and the distribution function\<close>









subsection \<open>The vanilla prices are not negative\<close>





subsection \<open>All prices but one are not negative\<close>





subsection \<open>At the money\<close>

text \<open>
  Claim C1. When Spot equals Strike, Bachelier returns
  \<open>Vol \<sqdot> Spot \<sqdot> sqrt (0.5 \<sqdot> T / \<pi>)\<close> for every volatility, maturity and variant
  string, recognized or not, and BlackScholes returns the same value for every rate.
\<close>

theorem at_the_money:
  assumes "Spot = Strike"
  shows "Bachelier Spot Strike Vol T type = Inr (Vol * Spot * sqrt (0.5 * T / pi))
       \<and> BlackScholes Spot Strike r Vol T type = Inr (Vol * Spot * sqrt (0.5 * T / pi))"
  using assms by (simp add: Bachelier_def BlackScholes_def)

theorem at_the_money_witness:
  "(7::real) = 7
   \<and> Bachelier 7 7 (1/5) 4 ''bogus'' = Inr ((1/5) * 7 * sqrt (0.5 * 4 / pi))
   \<and> BlackScholes 7 7 (13/100) (1/5) 4 ''bogus'' = Inr ((1/5) * 7 * sqrt (0.5 * 4 / pi))"
  using at_the_money [of 7 7 "1/5" 4 "''bogus''" "13/100"] by simp

subsection \<open>Unrecognized variants\<close>

text \<open>
  Claim C2, as amended. When Spot differs from Strike and the variant string is none of
  the six tokens, both pricers throw \<^verbatim>\<open>std::invalid_argument\<close> with the message
  "Option type is invalid. Check documentation" and return no value. The claim as
  stated also covers Spot equal to Strike; there the test for the at-the-money case
  comes first and a value is returned whatever the string is, as the counterexample
  shows.
\<close>

theorem invalid_variant_off_the_money:
  assumes "Spot \<noteq> Strike" and "\<not> recognized type"
  shows "Bachelier Spot Strike Vol T type
           = Inl (invalid_argument ''Option type is invalid. Check documentation'')
       \<and> BlackScholes Spot Strike r Vol T type
           = Inl (invalid_argument ''Option type is invalid. Check documentation'')"
  using assms by (simp add: Bachelier_def BlackScholes_def recognized_def)

theorem invalid_variant_off_the_money_witness:
  "(50::real) \<noteq> 20 \<and> \<not> recognized ''bogus''
   \<and> Bachelier 50 20 (1/5) 4 ''bogus''
        = Inl (invalid_argument ''Option type is invalid. Check documentation'')
   \<and> BlackScholes 50 20 (13/100) (1/5) 4 ''bogus''
        = Inl (invalid_argument ''Option type is invalid. Check documentation'')"
  using invalid_variant_off_the_money [of 50 20 "''bogus''" "1/5" 4 "13/100"]
  by (simp add: recognized_def)

theorem invalid_variant_equal_strike_counterexample:
  "\<not> recognized ''bogus''
   \<and> Bachelier 3 3 (1/2) 1 ''bogus'' = Inr ((1/2) * 3 * sqrt (0.5 * 1 / pi))
   \<and> BlackScholes 3 3 0 (1/2) 1 ''bogus'' = Inr ((1/2) * 3 * sqrt (0.5 * 1 / pi))"
  by (simp add: recognized_def Bachelier_def BlackScholes_def)

subsection \<open>The Black-Scholes table\<close>

text \<open>
  Claim C3. Off the money, with positive Spot, Strike, volatility and maturity,
  BlackScholes returns for "van call", "van put", "con call" and "con put" the
  formulas of the table of section 4.3, at the offsets \<open>d1\<close> and \<open>d2\<close> of the
  specification.
\<close>

theorem BlackScholes_vanilla_and_cash:
  assumes "0 < Spot" "0 < Strike" "0 < Vol" "0 < T" "Spot \<noteq> Strike"
  shows "BlackScholes Spot Strike r Vol T ''van call''
           = Inr (Spot * cdf (spec_d1 Spot Strike r Vol T)
                  - Strike * exp (- (r * T)) * cdf (spec_d2 Spot Strike r Vol T))
       \<and> BlackScholes Spot Strike r Vol T ''van put''
           = Inr (- (Spot * cdf (- spec_d1 Spot Strike r Vol T))
                  + Strike * exp (- (r * T)) * cdf (- spec_d2 Spot Strike r Vol T))
       \<and> BlackScholes Spot Strike r Vol T ''con call''
           = Inr (exp (- (r * T)) * cdf (spec_d2 Spot Strike r Vol T))
       \<and> BlackScholes Spot Strike r Vol T ''con put''
           = Inr (exp (- (r * T)) * cdf (- spec_d2 Spot Strike r Vol T))"
  using assms
  by (simp add: BlackScholes_def spec_d1_def spec_d2_def power2_eq_square Let_def)

theorem BlackScholes_vanilla_and_cash_witness:
  "(0::real) < 50 \<and> (0::real) < 20 \<and> (0::real) < 1/5 \<and> (0::real) < 4 \<and> (50::real) \<noteq> 20
   \<and> BlackScholes 50 20 (13/100) (1/5) 4 ''van call''
           = Inr (50 * cdf (spec_d1 50 20 (13/100) (1/5) 4)
                  - 20 * exp (- ((13/100) * 4)) * cdf (spec_d2 50 20 (13/100) (1/5) 4))
   \<and> BlackScholes 50 20 (13/100) (1/5) 4 ''van put''
           = Inr (- (50 * cdf (- spec_d1 50 20 (13/100) (1/5) 4))
                  + 20 * exp (- ((13/100) * 4)) * cdf (- spec_d2 50 20 (13/100) (1/5) 4))
   \<and> BlackScholes 50 20 (13/100) (1/5) 4 ''con call''
           = Inr (exp (- ((13/100) * 4)) * cdf (spec_d2 50 20 (13/100) (1/5) 4))
   \<and> BlackScholes 50 20 (13/100) (1/5) 4 ''con put''
           = Inr (exp (- ((13/100) * 4)) * cdf (- spec_d2 50 20 (13/100) (1/5) 4))"
  using BlackScholes_vanilla_and_cash [of 50 20 "1/5" 4 "13/100"] by simp

text \<open>
  Claim C4. Under the same conditions BlackScholes returns \<open>Spot \<sqdot> pdf d1\<close> for
  "aon call" and \<open>Spot \<sqdot> pdf (\<minus>d1)\<close> for "aon put": the density, not the
  distribution function.
\<close>

theorem BlackScholes_asset_or_nothing:
  assumes "0 < Spot" "0 < Strike" "0 < Vol" "0 < T" "Spot \<noteq> Strike"
  shows "BlackScholes Spot Strike r Vol T ''aon call''
           = Inr (Spot * pdf (spec_d1 Spot Strike r Vol T))
       \<and> BlackScholes Spot Strike r Vol T ''aon put''
           = Inr (Spot * pdf (- spec_d1 Spot Strike r Vol T))"
  using assms
  by (simp add: BlackScholes_def spec_d1_def power2_eq_square Let_def)

theorem BlackScholes_asset_or_nothing_witness:
  "(0::real) < 50 \<and> (0::real) < 20 \<and> (0::real) < 1/5 \<and> (0::real) < 4 \<and> (50::real) \<noteq> 20
   \<and> BlackScholes 50 20 (13/100) (1/5) 4 ''aon call''
           = Inr (50 * pdf (spec_d1 50 20 (13/100) (1/5) 4))
   \<and> BlackScholes 50 20 (13/100) (1/5) 4 ''aon put''
           = Inr (50 * pdf (- spec_d1 50 20 (13/100) (1/5) 4))"
  using BlackScholes_asset_or_nothing [of 50 20 "1/5" 4 "13/100"] by simp

subsection \<open>The Bachelier table\<close>

text \<open>
  Claim C5. Off the money, with positive Spot, volatility and maturity, Bachelier
  returns for the token of each of the six variants the formula of the table of section
  4.2 at the offset \<open>xs\<close>; in particular "aon put" gives
  \<open>Spot \<sqdot> cdf xs \<minus> Spot \<sqdot> Vol \<sqdot> sqrt T \<sqdot> pdf xs\<close>.
\<close>

theorem Bachelier_table:
  assumes "0 < Spot" "0 < Vol" "0 < T" "Spot \<noteq> Strike"
  shows "Bachelier Spot Strike Vol T (token v) = Inr (spec_Bachelier v Spot Strike Vol T)
       \<and> Bachelier Spot Strike Vol T ''aon put''
           = Inr (Spot * cdf (spec_xs Spot Strike Vol T)
                  - Spot * Vol * sqrt T * pdf (spec_xs Spot Strike Vol T))"
  using Bachelier_token [OF assms(4), of Vol T v] Bachelier_token [OF assms(4), of Vol T AonPut]
  by simp

theorem Bachelier_table_witness:
  "(0::real) < 50 \<and> (0::real) < 1/5 \<and> (0::real) < 4 \<and> (50::real) \<noteq> 20
   \<and> Bachelier 50 20 (1/5) 4 (token AonCall) = Inr (spec_Bachelier AonCall 50 20 (1/5) 4)
   \<and> Bachelier 50 20 (1/5) 4 ''aon put''
           = Inr (50 * cdf (spec_xs 50 20 (1/5) 4)
                  - 50 * (1/5) * sqrt 4 * pdf (spec_xs 50 20 (1/5) 4))"
  using Bachelier_table [of 50 "1/5" 4 20 AonCall] by simp

subsection \<open>Parities\<close>

text \<open>
  Claim C6. Vanilla put-call parity for Black-Scholes: off the money, with positive
  Spot, Strike, volatility and maturity and any rate, both calls return a price, and
  the call price minus the put price is \<open>S \<minus> K \<sqdot> exp (\<minus>r \<sqdot> T)\<close>.
\<close>

theorem BlackScholes_put_call_parity:
  assumes "0 < S" "0 < K" "S \<noteq> K" "0 < Vol" "0 < T"
  shows "\<exists>c p. BlackScholes S K r Vol T ''van call'' = Inr c
             \<and> BlackScholes S K r Vol T ''van put'' = Inr p
             \<and> c - p = S - K * exp (- r * T)"
proof -
  define d1 where "d1 = (ln (S / K) + (r + 0.5 * Vol * Vol) * T) / (Vol * sqrt T)"
  define d2 where "d2 = (ln (S / K) + (r - 0.5 * Vol * Vol) * T) / (Vol * sqrt T)"
  define c where "c = S * cdf d1 - K * exp (- r * T) * cdf d2"
  define p where "p = - S * cdf (- d1) + K * exp (- r * T) * cdf (- d2)"
  have "BlackScholes S K r Vol T ''van call'' = Inr c"
    using \<open>S \<noteq> K\<close> by (simp add: BlackScholes_def Let_def c_def d1_def d2_def)
  moreover have "BlackScholes S K r Vol T ''van put'' = Inr p"
    using \<open>S \<noteq> K\<close> by (simp add: BlackScholes_def Let_def p_def d1_def d2_def)
  moreover have "c - p = S - K * exp (- r * T)"
    unfolding c_def p_def cdf_minus by (simp add: algebra_simps)
  ultimately show ?thesis by blast
qed

theorem BlackScholes_put_call_parity_witness:
  "(0::real) < 50 \<and> (0::real) < 20 \<and> (50::real) \<noteq> 20 \<and> (0::real) < 1/5 \<and> (0::real) < 4
   \<and> (\<exists>c p. BlackScholes 50 20 (13/100) (1/5) 4 ''van call'' = Inr c
             \<and> BlackScholes 50 20 (13/100) (1/5) 4 ''van put'' = Inr p
             \<and> c - p = 50 - 20 * exp (- (13/100) * 4))"
  using BlackScholes_put_call_parity [of 50 20 "1/5" 4 "13/100"] by simp

text \<open>
  Claim C7, as amended. Cash-or-nothing parity for Black-Scholes holds off the money:
  for positive S and K with S different from K, positive volatility and maturity and
  any rate, the "con call" and "con put" prices add up to \<open>exp (\<minus>r \<sqdot> T)\<close>. The
  claim as stated has no restriction to S different from K; at the money both calls
  return \<open>Vol \<sqdot> S \<sqdot> sqrt (0.5 \<sqdot> T / \<pi>)\<close>, and the counterexample shows their sum
  differing from the discount factor.
\<close>

theorem BlackScholes_cash_parity:
  assumes "0 < S" "0 < K" "S \<noteq> K" "0 < Vol" "0 < T"
  shows "\<exists>c p. BlackScholes S K r Vol T ''con call'' = Inr c
             \<and> BlackScholes S K r Vol T ''con put'' = Inr p
             \<and> c + p = exp (- r * T)"
proof -
  define d2 where "d2 = (ln (S / K) + (r - 0.5 * Vol * Vol) * T) / (Vol * sqrt T)"
  have "BlackScholes S K r Vol T ''con call'' = Inr (exp (- r * T) * cdf d2)"
    using \<open>S \<noteq> K\<close> by (simp add: BlackScholes_def Let_def d2_def)
  moreover have "BlackScholes S K r Vol T ''con put'' = Inr (exp (- r * T) * cdf (- d2))"
    using \<open>S \<noteq> K\<close> by (simp add: BlackScholes_def Let_def d2_def)
  moreover have "exp (- r * T) * cdf d2 + exp (- r * T) * cdf (- d2) = exp (- r * T)"
    unfolding cdf_minus by (simp add: algebra_simps)
  ultimately show ?thesis by blast
qed

theorem BlackScholes_cash_parity_witness:
  "(0::real) < 50 \<and> (0::real) < 20 \<and> (50::real) \<noteq> 20 \<and> (0::real) < 1/5 \<and> (0::real) < 4
   \<and> (\<exists>c p. BlackScholes 50 20 (13/100) (1/5) 4 ''con call'' = Inr c
             \<and> BlackScholes 50 20 (13/100) (1/5) 4 ''con put'' = Inr p
             \<and> c + p = exp (- (13/100) * 4))"
  using BlackScholes_cash_parity [of 50 20 "1/5" 4 "13/100"] by simp

theorem BlackScholes_cash_sum_equal_strike_counterexample:
  "(0::real) < 1 \<and> (0::real) < 1/2
   \<and> BlackScholes 1 1 0 (1/2) 1 ''con call'' = Inr (sqrt (1 / (2 * pi)) / 2)
   \<and> BlackScholes 1 1 0 (1/2) 1 ''con put'' = Inr (sqrt (1 / (2 * pi)) / 2)
   \<and> sqrt (1 / (2 * pi)) / 2 + sqrt (1 / (2 * pi)) / 2 \<noteq> exp (- 0 * 1)"
proof -
  have "1 / (2 * pi) \<le> 1 / (2 * 2)"
    using pi_ge_two by (intro divide_left_mono) auto
  then have "sqrt (1 / (2 * pi)) \<le> sqrt (1 / (2 * 2))"
    by (simp only: real_sqrt_le_iff)
  also have "\<dots> = 1 / 2"
    by (simp add: real_sqrt_divide)
  finally have "sqrt (1 / (2 * pi)) \<le> 1 / 2" .
  then have "sqrt (1 / (2 * pi)) / 2 + sqrt (1 / (2 * pi)) / 2 \<noteq> 1" by linarith
  moreover have "BlackScholes 1 1 0 (1/2) 1 ''con call'' = Inr (sqrt (1 / (2 * pi)) / 2)"
    by (simp add: BlackScholes_def)
  moreover have "BlackScholes 1 1 0 (1/2) 1 ''con put'' = Inr (sqrt (1 / (2 * pi)) / 2)"
    by (simp add: BlackScholes_def)
  ultimately show ?thesis by simp
qed

text \<open>
  Claim C10. Put-call parity for Bachelier, without discounting: off the money, with
  positive Spot, Strike, volatility and maturity, both calls return a price, and the
  "van call" price minus the "van put" price is \<open>Spot \<minus> Strike\<close>.
\<close>

theorem Bachelier_put_call_parity:
  assumes "0 < Spot" "0 < Strike" "Spot \<noteq> Strike" "0 < Vol" "0 < T"
  shows "\<exists>c p. Bachelier Spot Strike Vol T ''van call'' = Inr c
             \<and> Bachelier Spot Strike Vol T ''van put'' = Inr p
             \<and> c - p = Spot - Strike"
proof -
  define xs where "xs = (Strike - Spot) / (Spot * Vol * sqrt T)"
  define c where "c = (Spot - Strike) * cdf (- xs) + Spot * Vol * sqrt T * pdf (- xs)"
  define p where "p = (Strike - Spot) * cdf xs + Spot * Vol * sqrt T * pdf xs"
  have "Bachelier Spot Strike Vol T ''van call'' = Inr c"
    using \<open>Spot \<noteq> Strike\<close> by (simp add: Bachelier_def Let_def c_def xs_def)
  moreover have "Bachelier Spot Strike Vol T ''van put'' = Inr p"
    using \<open>Spot \<noteq> Strike\<close> by (simp add: Bachelier_def Let_def p_def xs_def)
  moreover have "c - p = Spot - Strike"
    unfolding c_def p_def cdf_minus pdf_even by (simp add: algebra_simps)
  ultimately show ?thesis by blast
qed

theorem Bachelier_put_call_parity_witness:
  "(0::real) < 50 \<and> (0::real) < 20 \<and> (50::real) \<noteq> 20 \<and> (0::real) < 1/5 \<and> (0::real) < 4
   \<and> (\<exists>c p. Bachelier 50 20 (1/5) 4 ''van call'' = Inr c
             \<and> Bachelier 50 20 (1/5) 4 ''van put'' = Inr p
             \<and> c - p = 50 - 20)"
  using Bachelier_put_call_parity [of 50 20 "1/5" 4] by simp

subsection \<open>Non-negative prices\<close>





subsection \<open>The demonstration program\<close>

text \<open>
  Claim C9 says that every pricer call of the demonstration program succeeds, that one
  result line is printed per model and variant, and that the program ends with exit
  code 0. In \<^verbatim>\<open>main.cpp\<close> the last call passes the string "aon putt", which is none of
  the six tokens, with Spot 50 and Strike 20. The theorem evaluates the program: the
  exception escapes \<^verbatim>\<open>main\<close>, the label "AoN Put:" is the last item written, and
  eleven prices, not twelve, have been printed.
\<close>

theorem main_terminates_abnormally:
  "snd main = Uncaught (invalid_argument ''Option type is invalid. Check documentation'')
   \<and> length (filter (\<lambda>x. case x of Dbl v \<Rightarrow> True | _ \<Rightarrow> False) (fst main)) = 11
   \<and> last (fst main) = Str ''AoN Put:''"
  by (simp add: main_def main_body_def put_text_def put_price_def Bachelier_def BlackScholes_def Let_def)

end
